theory Spec2Isabelle
  imports Main "HOL-Library.Word"
begin

section \<open>The 3GPP power-saving example of ubxlib\<close>

text \<open>
  The development embeds \<^verbatim>\<open>example/cell/power_saving/cell_power_saving_3gpp_main.c\<close>:
  the callback \<^verbatim>\<open>callback()\<close>, the flag \<^verbatim>\<open>g3gppPowerSavingSet\<close> and the test
  function \<^verbatim>\<open>exampleCellPowerSaving3gpp\<close>.  The ubxlib functions the example calls
  (\<^verbatim>\<open>uNetworkAdd\<close>, \<^verbatim>\<open>uCellCfgGetRat\<close>, ...) are not part of the file: what they return
  and when they run the callback is a parameter of the model, and every call the example
  makes is appended to a call log in the state, arguments included.
\<close>

subsection \<open>Types and compile-time macros\<close>

type_synonym int32_t = "32 word"

text \<open>
  Modelled from the spec: the enumeration \<^verbatim>\<open>uCellNetRat_t\<close> is declared in
  \<^verbatim>\<open>u_cell_net.h\<close>, which is not among the sources; the spec names Cat-M1 and NB-IoT.
  Every other value of the C type, error codes of \<^verbatim>\<open>uCellCfgGetRat\<close> included, is
  \<open>U_CELL_NET_RAT_OTHER\<close>.
\<close>

datatype uCellNetRat_t =
  U_CELL_NET_RAT_CATM1
| U_CELL_NET_RAT_NB1
| U_CELL_NET_RAT_OTHER int

text \<open>The two values of \<^verbatim>\<open>uNetworkType_t\<close> that the file names.\<close>

datatype uNetworkType_t = U_NETWORK_TYPE_NONE | U_NETWORK_TYPE_CELL

definition ACTIVE_TIME_SECONDS :: int32_t where
  "ACTIVE_TIME_SECONDS = 60"

definition PERIODIC_WAKEUP_SECONDS :: int32_t where
  "PERIODIC_WAKEUP_SECONDS = 3600 * 4"

definition MY_RAT :: uCellNetRat_t where
  "MY_RAT = U_CELL_NET_RAT_CATM1"

text \<open>The preprocessor symbols that select the conditional parts of the file.\<close>

record build =
  U_CFG_TEST_CELL_MODULE_TYPE_defined :: bool
  U_CFG_CELL_DISABLE_UART_POWER_SAVING_defined :: bool
  U_PORT_TEST_ASSERT_defined :: bool

text \<open>
  The condition of the two \<^verbatim>\<open>#if defined(U_CFG_TEST_CELL_MODULE_TYPE) &&
  !defined(U_CFG_CELL_DISABLE_UART_POWER_SAVING)\<close> lines.
\<close>

definition cellConfigured :: "build \<Rightarrow> bool" where
  "cellConfigured b =
     (U_CFG_TEST_CELL_MODULE_TYPE_defined b \<and> \<not> U_CFG_CELL_DISABLE_UART_POWER_SAVING_defined b)"

text \<open>
  \<^verbatim>\<open>gConfigCell\<close>, reduced to its first field, the network type; the other fields are
  the pins and the UART of the platform.
\<close>

definition gConfigCell :: "build \<Rightarrow> uNetworkType_t" where
  "gConfigCell b = (if cellConfigured b then U_NETWORK_TYPE_CELL else U_NETWORK_TYPE_NONE)"

subsection \<open>Calls, log lines and the state\<close>

text \<open>The lines the file prints through \<^verbatim>\<open>uPortLog\<close>, with their arguments.\<close>

datatype msg =
  PowerSavingIs bool int32_t int32_t
| AddedNetwork int32_t
| Requesting int32_t int32_t
| BringingUp
| Agreed
| UnableToSwitchOn
| TakingDown
| UnableToBringUp
| NotSupported
| UnableToSetRat uCellNetRat_t
| Done

text \<open>
  The calls the file makes, each with the arguments it passes (the callback pointer and the
  \<^verbatim>\<open>NULL\<close> arguments left out).
\<close>

datatype call =
  UPortInit
| UNetworkInit
| UNetworkAdd uNetworkType_t uNetworkType_t
| UCellPwrSet3gppPowerSavingCallback int32_t
| UCellCfgGetRat int32_t nat
| UCellCfgSetRatRank int32_t uCellNetRat_t nat
| UCellPwrSetRequested3gppPowerSaving int32_t uCellNetRat_t bool int32_t int32_t
| UCellPwrRebootIsRequired int32_t
| UCellPwrReboot int32_t
| UNetworkUp int32_t
| UPortTaskBlock nat
| UNetworkDown int32_t
| UNetworkDeinit
| UPortDeinit
| UPortLog msg
| U_PORT_TEST_ASSERT bool

text \<open>
  The state: the file's one global, \<^verbatim>\<open>g3gppPowerSavingSet\<close>, the log of the calls made
  so far, and the number of \<^verbatim>\<open>uPortTaskBlock\<close> calls that have returned (the simulated
  seconds of the wait).
\<close>

record state =
  g3gppPowerSavingSet :: bool
  calls :: "call list"
  blocks :: nat

text \<open>The static initialiser: \<^verbatim>\<open>g3gppPowerSavingSet = false\<close>, nothing called yet.\<close>

definition boot :: state where
  "boot = \<lparr>g3gppPowerSavingSet = False, calls = [], blocks = 0\<rparr>"

text \<open>One invocation of the callback by the network layer: the arguments it passes.\<close>

record delivery =
  onNotOff :: bool
  activeTimeSeconds :: int32_t
  periodicWakeupSeconds :: int32_t

text \<open>
  What the library does in one execution: the values its functions return to the example,
  and \<open>during c k\<close>, the deliveries of the callback that happen while the call \<open>c\<close> runs
  after \<open>k\<close> suspend cycles have been completed.  The callback runs in a context of the
  library; the model lets it run during any call made once it is registered.
\<close>

record collaborator =
  uNetworkAdd :: int32_t
  uCellCfgGetRat :: uCellNetRat_t
  uCellCfgSetRatRank :: int32_t
  uCellPwrSetRequested3gppPowerSaving :: int32_t
  uCellPwrRebootIsRequired :: bool
  uNetworkUp :: int32_t
  during :: "call \<Rightarrow> nat \<Rightarrow> delivery list"

subsection \<open>The callback\<close>

text \<open>The test of lines 180-181.\<close>

definition agrees :: "delivery \<Rightarrow> bool" where
  "agrees d =
     (onNotOff d \<and> ACTIVE_TIME_SECONDS \<le>s activeTimeSeconds d
        \<and> PERIODIC_WAKEUP_SECONDS \<le>s periodicWakeupSeconds d)"

text \<open>A call during which the callback does not run: it is logged.\<close>

definition plain :: "call \<Rightarrow> state \<Rightarrow> state" where
  "plain c s = s\<lparr>calls := calls s @ [c]\<rparr>"

text \<open>
  Lines 169-184: the callback prints what it was given and sets the flag when the test
  holds; it has no other assignment to the flag.
\<close>

definition callback :: "delivery \<Rightarrow> state \<Rightarrow> state" where
  "callback d s =
     (let s = plain (UPortLog (PowerSavingIs (onNotOff d) (activeTimeSeconds d)
                                  (periodicWakeupSeconds d))) s
      in if agrees d then s\<lparr>g3gppPowerSavingSet := True\<rparr> else s)"

subsection \<open>Calls into the library\<close>

text \<open>
  A call made once the callback is registered: the call is logged, then the deliveries
  that happen during it run the callback, in order.
\<close>

definition invoke :: "collaborator \<Rightarrow> call \<Rightarrow> state \<Rightarrow> state" where
  "invoke e c s = fold callback (during e c (blocks s)) (plain c s)"

text \<open>
  One suspend cycle, \<^verbatim>\<open>uPortTaskBlock(ms)\<close>: a call like any other, after which one more
  cycle is counted.
\<close>

definition uPortTaskBlock :: "collaborator \<Rightarrow> nat \<Rightarrow> state \<Rightarrow> state" where
  "uPortTaskBlock e ms s = (let s = invoke e (UPortTaskBlock ms) s in s\<lparr>blocks := Suc (blocks s)\<rparr>)"

subsection \<open>The wait loop\<close>

text \<open>
  Lines 241-244: \<^verbatim>\<open>while (!g3gppPowerSavingSet && (x < 30)) { uPortTaskBlock(1000); x++; }\<close>
  on the signed 32-bit counter \<open>x\<close>.
\<close>

function waitLoop :: "collaborator \<Rightarrow> state \<Rightarrow> int32_t \<Rightarrow> state \<times> int32_t" where
  "waitLoop e s x =
     (if \<not> g3gppPowerSavingSet s \<and> x <s 30
      then waitLoop e (uPortTaskBlock e 1000 s) (x + 1)
      else (s, x))"
  by pat_completeness auto
termination
proof (relation "measure (\<lambda>(e, s, x). nat (30 - sint x))")
  show "wf (measure (\<lambda>(e :: collaborator, s :: state, x :: int32_t). nat (30 - sint x)))"
    by simp
next
  fix e :: collaborator and s :: state and x :: int32_t
  assume "\<not> g3gppPowerSavingSet s \<and> x <s 30"
  then have below: "sint x < 30"
    by (simp add: word_sless_alt)
  moreover have "- (2 ^ 31) \<le> sint x"
    using sint_ge [of x] by simp
  ultimately have "sint (x + 1) = sint x + 1"
    by (simp add: sint_word_add signed_take_bit_int_eq_self)
  with below show "((e, uPortTaskBlock e 1000 s, x + 1), (e, s, x))
      \<in> measure (\<lambda>(e, s, x). nat (30 - sint x))"
    by simp
qed

subsection \<open>The example\<close>

text \<open>
  Lines 213-217, where the primary RAT is set to \<^verbatim>\<open>MY_RAT\<close>: the state after the calls
  and the value of \<^verbatim>\<open>onMyRat\<close>.
\<close>

definition setPrimaryRat :: "collaborator \<Rightarrow> int32_t \<Rightarrow> state \<Rightarrow> state \<times> bool" where
  "setPrimaryRat e networkHandle s =
     (let s = invoke e (UCellCfgGetRat networkHandle 0) s
      in if uCellCfgGetRat e \<noteq> MY_RAT
         then (let s = invoke e (UCellCfgSetRatRank networkHandle MY_RAT 0) s
               in if uCellCfgSetRatRank e \<noteq> 0 then (s, False) else (s, True))
         else (s, True))"

text \<open>
  Lines 233-257, entered with \<open>x = 0\<close>: the network is brought up, the loop waits for the
  flag, the result is printed and the network is taken down.  The state and \<open>x\<close> are
  returned.
\<close>

definition bringUpAndWait :: "collaborator \<Rightarrow> int32_t \<Rightarrow> state \<Rightarrow> int32_t \<Rightarrow> state \<times> int32_t" where
  "bringUpAndWait e networkHandle s x =
     (let s = invoke e (UPortLog BringingUp) s;
          s = invoke e (UNetworkUp networkHandle) s
      in if uNetworkUp e = 0
         then (let (s, x) = waitLoop e s x;
                   s = (if g3gppPowerSavingSet s
                        then invoke e (UPortLog Agreed) s
                        else invoke e (UPortLog UnableToSwitchOn) s);
                   s = invoke e (UPortLog TakingDown) s;
                   s = invoke e (UNetworkDown networkHandle) s
               in (s, x))
         else (invoke e (UPortLog UnableToBringUp) s, x))"

text \<open>
  Lines 220-260, the branch taken when \<^verbatim>\<open>onMyRat\<close> holds: the request, the reboot if one
  is required, then the network.
\<close>

definition requestPowerSaving :: "collaborator \<Rightarrow> int32_t \<Rightarrow> state \<Rightarrow> state \<times> int32_t" where
  "requestPowerSaving e networkHandle s =
     (let s = invoke e (UPortLog (Requesting ACTIVE_TIME_SECONDS PERIODIC_WAKEUP_SECONDS)) s;
          s = invoke e (UCellPwrSetRequested3gppPowerSaving networkHandle MY_RAT True
                          ACTIVE_TIME_SECONDS PERIODIC_WAKEUP_SECONDS) s;
          x = uCellPwrSetRequested3gppPowerSaving e
      in if x = 0
         then (let s = invoke e (UCellPwrRebootIsRequired networkHandle) s;
                   s = (if uCellPwrRebootIsRequired e
                        then invoke e (UCellPwrReboot networkHandle) s else s)
               in bringUpAndWait e networkHandle s x)
         else (invoke e (UPortLog NotSupported) s, x))"

text \<open>
  Lines 195-269, from \<^verbatim>\<open>uPortInit()\<close> to the line ``Done'': the state and the final
  value of the local \<open>x\<close>, which starts at \<open>-1\<close>.  The three calls and the log line that
  precede the registration of the callback are \<open>plain\<close>.
\<close>

definition workflow :: "build \<Rightarrow> collaborator \<Rightarrow> state \<Rightarrow> state \<times> int32_t" where
  "workflow b e s =
     (let s = plain UPortInit s;
          s = plain UNetworkInit s;
          s = plain (UNetworkAdd U_NETWORK_TYPE_CELL (gConfigCell b)) s;
          networkHandle = uNetworkAdd e;
          s = plain (UPortLog (AddedNetwork networkHandle)) s;
          s = invoke e (UCellPwrSet3gppPowerSavingCallback networkHandle) s;
          (s, onMyRat) = setPrimaryRat e networkHandle s;
          (s, x) = (if onMyRat then requestPowerSaving e networkHandle s
                    else (invoke e (UPortLog (UnableToSetRat MY_RAT)) s, - 1));
          s = invoke e UNetworkDeinit s;
          s = invoke e UPortDeinit s;
          s = invoke e (UPortLog Done) s
      in (s, x))"

text \<open>
  Lines 278-288, compiled for the internal tests only: power saving is switched off again
  on a network that is added anew.  No callback is registered on it, so every call is
  \<open>plain\<close>; the value returned by the request is not looked at.
\<close>

definition switchOffAgain :: "build \<Rightarrow> collaborator \<Rightarrow> state \<Rightarrow> state" where
  "switchOffAgain b e s =
     (let s = plain UPortInit s;
          s = plain UNetworkInit s;
          s = plain (UNetworkAdd U_NETWORK_TYPE_CELL (gConfigCell b)) s;
          networkHandle = uNetworkAdd e;
          s = plain (UCellPwrSetRequested3gppPowerSaving networkHandle MY_RAT False (- 1) (- 1)) s;
          s = plain (UCellPwrRebootIsRequired networkHandle) s;
          s = (if uCellPwrRebootIsRequired e then plain (UCellPwrReboot networkHandle) s else s);
          s = plain UNetworkDeinit s
      in plain UPortDeinit s)"

text \<open>
  The whole test function.  \<open>e\<close> is the library during lines 195-269 and \<open>e'\<close> the library
  during lines 278-288.  \<^verbatim>\<open>EXAMPLE_FINAL_STATE\<close> expands to \<^verbatim>\<open>U_PORT_TEST_ASSERT\<close> when
  that macro is defined; the macro belongs to the test framework and is logged as a call
  with the value of its condition.  A condition that fails has the flag clear, so the
  lines that follow it call nothing, whether the macro returns or not.
\<close>

definition exampleCellPowerSaving3gpp ::
    "build \<Rightarrow> collaborator \<Rightarrow> collaborator \<Rightarrow> state \<Rightarrow> state" where
  "exampleCellPowerSaving3gpp b e e' s =
     (let (s, x) = workflow b e s
      in if cellConfigured b \<and> U_PORT_TEST_ASSERT_defined b
         then (let s = plain (U_PORT_TEST_ASSERT (x <s 0 \<or> g3gppPowerSavingSet s)) s
               in if g3gppPowerSavingSet s then switchOffAgain b e' s else s)
         else s)"

subsection \<open>Reading the call log\<close>

text \<open>The calls into the library, without the log output.\<close>

fun api :: "call list \<Rightarrow> call list" where
  "api [] = []"
| "api (UPortLog m # cs) = api cs"
| "api (c # cs) = c # api cs"

text \<open>The deliveries of the callback, read off the line each of them prints.\<close>

fun deliveries :: "call list \<Rightarrow> delivery list" where
  "deliveries [] = []"
| "deliveries (UPortLog (PowerSavingIs on a p) # cs) =
     \<lparr>onNotOff = on, activeTimeSeconds = a, periodicWakeupSeconds = p\<rparr> # deliveries cs"
| "deliveries (c # cs) = deliveries cs"

text \<open>The lines the example itself prints, without those of the callback.\<close>

fun printed :: "call list \<Rightarrow> msg list" where
  "printed [] = []"
| "printed (UPortLog (PowerSavingIs on a p) # cs) = printed cs"
| "printed (UPortLog m # cs) = m # printed cs"
| "printed (c # cs) = printed cs"

subsection \<open>Notions used in the statements\<close>

text \<open>The line the callback prints for a delivery (lines 173-175).\<close>

definition line :: "delivery \<Rightarrow> call" where
  "line d = UPortLog (PowerSavingIs (onNotOff d) (activeTimeSeconds d) (periodicWakeupSeconds d))"

text \<open>The flag says what the deliveries logged so far say.\<close>

definition consistent :: "state \<Rightarrow> bool" where
  "consistent s = (g3gppPowerSavingSet s = list_ex agrees (deliveries (calls s)))"

text \<open>
  The value of \<^verbatim>\<open>onMyRat\<close> at line 219, from what the library returns: the RAT is already
  \<^verbatim>\<open>MY_RAT\<close>, or the rank change is accepted.
\<close>

definition onMyRat :: "collaborator \<Rightarrow> bool" where
  "onMyRat e = (uCellCfgGetRat e = MY_RAT \<or> uCellCfgSetRatRank e = 0)"

text \<open>
  The part of the file after line 269 is compiled in, as it is for the internal tests.
\<close>

definition internalTest :: "build \<Rightarrow> bool" where
  "internalTest b = (cellConfigured b \<and> U_PORT_TEST_ASSERT_defined b)"

text \<open>\<open>a\<close> is called before the first call of \<open>b\<close>.\<close>

definition before :: "call \<Rightarrow> call \<Rightarrow> call list \<Rightarrow> bool" where
  "before a b cs = (a \<in> set (takeWhile (\<lambda>c. c \<noteq> b) cs))"

text \<open>
  The state in which a further run of the function in the same program starts: nothing
  resets the static flag, so it is as the previous run left it; the call log and the
  count of cycles start afresh.
\<close>

definition again :: "state \<Rightarrow> state" where
  "again s = boot\<lparr>g3gppPowerSavingSet := g3gppPowerSavingSet s\<rparr>"

subsection \<open>Two builds and a library, for the examples\<close>

definition internalTestBuild :: build where
  "internalTestBuild =
     \<lparr>U_CFG_TEST_CELL_MODULE_TYPE_defined = True,
      U_CFG_CELL_DISABLE_UART_POWER_SAVING_defined = False,
      U_PORT_TEST_ASSERT_defined = True\<rparr>"

definition plainBuild :: build where
  "plainBuild =
     \<lparr>U_CFG_TEST_CELL_MODULE_TYPE_defined = True,
      U_CFG_CELL_DISABLE_UART_POWER_SAVING_defined = False,
      U_PORT_TEST_ASSERT_defined = False\<rparr>"

text \<open>
  A library on which every call succeeds, the RAT is already Cat-M1, no reboot is needed
  and the callback is never run.
\<close>

definition silent :: collaborator where
  "silent =
     \<lparr>uNetworkAdd = 0, uCellCfgGetRat = U_CELL_NET_RAT_CATM1, uCellCfgSetRatRank = 0,
      uCellPwrSetRequested3gppPowerSaving = 0, uCellPwrRebootIsRequired = False,
      uNetworkUp = 0, during = (\<lambda>c k. [])\<rparr>"

text \<open>The deliveries of the examples: the requested values, larger ones, too short an active time.\<close>

definition asRequested :: delivery where
  "asRequested = \<lparr>onNotOff = True, activeTimeSeconds = 60, periodicWakeupSeconds = 14400\<rparr>"

definition roundedUp :: delivery where
  "roundedUp = \<lparr>onNotOff = True, activeTimeSeconds = 90, periodicWakeupSeconds = 16200\<rparr>"

definition tooShort :: delivery where
  "tooShort = \<lparr>onNotOff = True, activeTimeSeconds = 59, periodicWakeupSeconds = 14400\<rparr>"

text \<open>The library that makes the deliveries \<open>ds\<close> during the call \<open>c\<close> after \<open>k\<close> cycles.\<close>

definition delivering :: "call \<Rightarrow> nat \<Rightarrow> delivery list \<Rightarrow> collaborator \<Rightarrow> collaborator" where
  "delivering c k ds e = e\<lparr>during := (\<lambda>c' k'. if c' = c \<and> k' = k then ds else during e c' k')\<rparr>"

section \<open>Properties\<close>

subsection \<open>The effect of one call\<close>

lemma plain_simps [simp]:
  "calls (plain c s) = calls s @ [c]"
  "blocks (plain c s) = blocks s"
  "g3gppPowerSavingSet (plain c s) = g3gppPowerSavingSet s"
  by (simp_all add: plain_def)

lemma callback_simps [simp]:
  "calls (callback d s) = calls s @ [line d]"
  "blocks (callback d s) = blocks s"
  "g3gppPowerSavingSet (callback d s) = (g3gppPowerSavingSet s \<or> agrees d)"
  by (simp_all add: callback_def line_def Let_def)

lemma fold_callback_simps [simp]:
  "calls (fold callback ds s) = calls s @ map line ds"
  "blocks (fold callback ds s) = blocks s"
  "g3gppPowerSavingSet (fold callback ds s) = (g3gppPowerSavingSet s \<or> list_ex agrees ds)"
  by (induction ds arbitrary: s; simp; blast?)+

lemma invoke_simps [simp]:
  "calls (invoke e c s) = calls s @ c # map line (during e c (blocks s))"
  "blocks (invoke e c s) = blocks s"
  "g3gppPowerSavingSet (invoke e c s) = (g3gppPowerSavingSet s \<or> list_ex agrees (during e c (blocks s)))"
  by (simp_all add: invoke_def)

lemma uPortTaskBlock_simps [simp]:
  "calls (uPortTaskBlock e ms s) = calls s @ UPortTaskBlock ms # map line (during e (UPortTaskBlock ms) (blocks s))"
  "blocks (uPortTaskBlock e ms s) = Suc (blocks s)"
  "g3gppPowerSavingSet (uPortTaskBlock e ms s) =
     (g3gppPowerSavingSet s \<or> list_ex agrees (during e (UPortTaskBlock ms) (blocks s)))"
  by (simp_all add: uPortTaskBlock_def Let_def)

lemma api_append [simp]: "api (xs @ ys) = api xs @ api ys"
  by (induction xs rule: api.induct) simp_all

lemma api_lines [simp]: "api (map line ds) = []"
  by (induction ds) (simp_all add: line_def)

lemma deliveries_append [simp]: "deliveries (xs @ ys) = deliveries xs @ deliveries ys"
  by (induction xs rule: deliveries.induct) simp_all

lemma deliveries_lines [simp]: "deliveries (map line ds) = ds"
  by (induction ds) (simp_all add: line_def)

lemma printed_append [simp]: "printed (xs @ ys) = printed xs @ printed ys"
  by (induction xs rule: printed.induct) simp_all

lemma printed_lines [simp]: "printed (map line ds) = []"
  by (induction ds) (simp_all add: line_def)

lemma Agreed_logged [simp]: "UPortLog Agreed \<in> set cs \<longleftrightarrow> Agreed \<in> set (printed cs)"
  by (induction cs rule: printed.induct) auto

declare waitLoop.simps [simp del]

subsection \<open>The wait loop\<close>

text \<open>Below 30 the increment of the counter does not wrap.\<close>

lemma sint_succ_below_30:
  fixes x :: int32_t
  assumes "x <s 30"
  shows "sint (x + 1) = sint x + 1"
proof -
  have "sint x < 30"
    using assms by (simp add: word_sless_alt)
  moreover have "- (2 ^ 31) \<le> sint x"
    using sint_ge [of x] by simp
  ultimately show ?thesis
    by (simp add: sint_word_add signed_take_bit_int_eq_self)
qed

lemma waitLoop_step:
  "\<not> g3gppPowerSavingSet s \<Longrightarrow> x <s 30 \<Longrightarrow>
     waitLoop e s x = waitLoop e (uPortTaskBlock e 1000 s) (x + 1)"
  by (subst waitLoop.simps) simp

lemma waitLoop_stop:
  "g3gppPowerSavingSet s \<or> \<not> x <s 30 \<Longrightarrow> waitLoop e s x = (s, x)"
  by (subst waitLoop.simps) auto

lemma waitLoop_blocks_mono: "blocks s \<le> blocks (fst (waitLoop e s x))"
proof (induction e s x rule: waitLoop.induct)
  case (1 e s x)
  show ?case
  proof (cases "\<not> g3gppPowerSavingSet s \<and> x <s 30")
    case True
    with 1 have "blocks (uPortTaskBlock e 1000 s) \<le> blocks (fst (waitLoop e s x))"
      by (simp add: waitLoop_step)
    then show ?thesis by simp
  next
    case False
    then show ?thesis by (simp add: waitLoop_stop)
  qed
qed

lemma replicate_diff_Suc:
  "Suc m \<le> n \<Longrightarrow> c # replicate (n - Suc m) c = replicate (n - m) c"
  by (metis Suc_diff_le diff_Suc_Suc replicate_Suc)

lemma waitLoop_api:
  "api (calls (fst (waitLoop e s x))) =
     api (calls s) @ replicate (blocks (fst (waitLoop e s x)) - blocks s) (UPortTaskBlock 1000)"
proof (induction e s x rule: waitLoop.induct)
  case (1 e s x)
  show ?case
  proof (cases "\<not> g3gppPowerSavingSet s \<and> x <s 30")
    case True
    have "Suc (blocks s) \<le> blocks (fst (waitLoop e s x))"
      using waitLoop_blocks_mono [of "uPortTaskBlock e 1000 s" e "x + 1"] True
      by (simp add: waitLoop_step)
    with 1 True show ?thesis
      by (simp add: waitLoop_step replicate_diff_Suc)
  next
    case False
    then show ?thesis by (simp add: waitLoop_stop)
  qed
qed

lemma waitLoop_printed: "printed (calls (fst (waitLoop e s x))) = printed (calls s)"
proof (induction e s x rule: waitLoop.induct)
  case (1 e s x)
  show ?case
  proof (cases "\<not> g3gppPowerSavingSet s \<and> x <s 30")
    case True
    with 1 show ?thesis by (simp add: waitLoop_step)
  next
    case False
    then show ?thesis by (simp add: waitLoop_stop)
  qed
qed

lemma deliveries_Cons_other:
  "deliveries [c] = [] \<Longrightarrow> deliveries (c # cs) = deliveries cs"
  using deliveries_append [of "[c]" cs] by simp

lemma consistent_plain:
  "deliveries [c] = [] \<Longrightarrow> consistent (plain c s) = consistent s"
  by (simp add: consistent_def)

lemma consistent_invoke:
  "deliveries [c] = [] \<Longrightarrow> consistent s \<Longrightarrow> consistent (invoke e c s)"
  by (auto simp add: consistent_def deliveries_Cons_other)

lemma consistent_uPortTaskBlock:
  "consistent s \<Longrightarrow> consistent (uPortTaskBlock e ms s)"
  by (auto simp add: consistent_def)

lemma waitLoop_consistent:
  "consistent s \<Longrightarrow> consistent (fst (waitLoop e s x))"
proof (induction e s x rule: waitLoop.induct)
  case (1 e s x)
  show ?case
  proof (cases "\<not> g3gppPowerSavingSet s \<and> x <s 30")
    case True
    with 1 show ?thesis by (simp add: waitLoop_step consistent_uPortTaskBlock)
  next
    case False
    with 1 show ?thesis by (simp add: waitLoop_stop)
  qed
qed

lemma waitLoop_keeps:
  "g3gppPowerSavingSet s \<Longrightarrow> g3gppPowerSavingSet (fst (waitLoop e s x))"
  by (simp add: waitLoop_stop)

lemma waitLoop_count:
  "sint (snd (waitLoop e s x)) = sint x + int (blocks (fst (waitLoop e s x)) - blocks s)"
proof (induction e s x rule: waitLoop.induct)
  case (1 e s x)
  show ?case
  proof (cases "\<not> g3gppPowerSavingSet s \<and> x <s 30")
    case True
    have le: "Suc (blocks s) \<le> blocks (fst (waitLoop e s x))"
      using waitLoop_blocks_mono [of "uPortTaskBlock e 1000 s" e "x + 1"] True
      by (simp add: waitLoop_step)
    from 1 True have "sint (snd (waitLoop e s x)) =
        sint (x + 1) + int (blocks (fst (waitLoop e s x)) - Suc (blocks s))"
      by (simp add: waitLoop_step)
    with True le show ?thesis
      by (simp add: sint_succ_below_30)
  next
    case False
    then show ?thesis by (simp add: waitLoop_stop)
  qed
qed

lemma waitLoop_exit:
  "g3gppPowerSavingSet (fst (waitLoop e s x)) \<or> \<not> snd (waitLoop e s x) <s 30"
proof (induction e s x rule: waitLoop.induct)
  case (1 e s x)
  show ?case
  proof (cases "\<not> g3gppPowerSavingSet s \<and> x <s 30")
    case True
    with 1 show ?thesis by (simp add: waitLoop_step)
  next
    case False
    then show ?thesis by (auto simp add: waitLoop_stop)
  qed
qed

lemma waitLoop_bound:
  "sint x \<le> 30 \<Longrightarrow> sint (snd (waitLoop e s x)) \<le> 30"
proof (induction e s x rule: waitLoop.induct)
  case (1 e s x)
  show ?case
  proof (cases "\<not> g3gppPowerSavingSet s \<and> x <s 30")
    case True
    then have "sint (x + 1) \<le> 30"
      by (simp add: sint_succ_below_30 word_sless_alt)
    with 1 True show ?thesis by (simp add: waitLoop_step)
  next
    case False
    with 1 show ?thesis by (simp add: waitLoop_stop)
  qed
qed

text \<open>From \<open>x = 0\<close>: the number of cycles when the flag is still clear at the end.\<close>

lemma waitLoop_times_out:
  assumes "\<not> g3gppPowerSavingSet (fst (waitLoop e s 0))"
  shows "blocks (fst (waitLoop e s 0)) = blocks s + 30" and "snd (waitLoop e s 0) = 30"
proof -
  have "\<not> snd (waitLoop e s 0) <s 30"
    using waitLoop_exit [of e s 0] assms by simp
  moreover have "sint (snd (waitLoop e s 0)) \<le> 30"
    by (rule waitLoop_bound) simp
  ultimately have x: "sint (snd (waitLoop e s 0)) = 30"
    by (simp add: word_sless_alt)
  then have "int (blocks (fst (waitLoop e s 0)) - blocks s) = 30"
    using waitLoop_count [of e s 0] by simp
  then show "blocks (fst (waitLoop e s 0)) = blocks s + 30"
    using waitLoop_blocks_mono [of s e 0] by linarith
  from x have "sint (snd (waitLoop e s 0)) = sint (30 :: int32_t)"
    by simp
  then show "snd (waitLoop e s 0) = 30"
    by (rule signed_word_eqI)
qed

lemma waitLoop_at_most_30:
  "blocks (fst (waitLoop e s 0)) \<le> blocks s + 30"
proof -
  have "sint (snd (waitLoop e s 0)) \<le> 30"
    by (rule waitLoop_bound) simp
  then show ?thesis
    using waitLoop_count [of e s 0] by simp
qed

lemma le_blocks_waitLoop:
  "n \<le> blocks s \<Longrightarrow> n \<le> blocks (fst (waitLoop e s x))"
  using waitLoop_blocks_mono [of s e x] by simp

lemma blocks_waitLoop_le:
  "blocks s \<le> n \<Longrightarrow> blocks (fst (waitLoop e s 0)) \<le> n + 30"
  using waitLoop_at_most_30 [of e s] by simp


subsection \<open>Lines 213-217\<close>

lemma setPrimaryRat_simps [simp]:
  "snd (setPrimaryRat e h s) = onMyRat e"
  "blocks (fst (setPrimaryRat e h s)) = blocks s"
  "printed (calls (fst (setPrimaryRat e h s))) = printed (calls s)"
  by (simp_all add: setPrimaryRat_def onMyRat_def Let_def)



subsection \<open>Lines 233-257\<close>

lemma bringUpAndWait_timed_out:
  assumes "uNetworkUp e = 0" and "\<not> g3gppPowerSavingSet (fst (bringUpAndWait e h s 0))"
  shows "blocks (fst (bringUpAndWait e h s 0)) = blocks s + 30"
    and "printed (calls (fst (bringUpAndWait e h s 0))) =
           printed (calls s) @ [BringingUp, UnableToSwitchOn, TakingDown]"
    and "snd (bringUpAndWait e h s 0) = 30"
proof -
  let ?S = "invoke e (UNetworkUp h) (invoke e (UPortLog BringingUp) s)"
  have clear: "\<not> g3gppPowerSavingSet (fst (waitLoop e ?S 0))"
    using assms by (simp add: bringUpAndWait_def Let_def split_beta split: if_splits)
  note out = waitLoop_times_out [OF clear]
  show "blocks (fst (bringUpAndWait e h s 0)) = blocks s + 30"
    using assms(1) clear out by (simp add: bringUpAndWait_def Let_def split_beta)
  show "printed (calls (fst (bringUpAndWait e h s 0))) =
           printed (calls s) @ [BringingUp, UnableToSwitchOn, TakingDown]"
    using assms(1) clear by (simp add: bringUpAndWait_def Let_def split_beta waitLoop_printed)
  show "snd (bringUpAndWait e h s 0) = 30"
    using assms(1) out by (simp add: bringUpAndWait_def Let_def split_beta)
qed

lemma bringUpAndWait_agreed_kept:
  assumes "Agreed \<in> set (printed (calls (fst (bringUpAndWait e h s x))))"
    and "Agreed \<notin> set (printed (calls s))"
  shows "g3gppPowerSavingSet (fst (bringUpAndWait e h s x))"
  using assms
  by (simp add: bringUpAndWait_def Let_def split_beta waitLoop_printed split: if_splits)



subsection \<open>Lines 220-260\<close>

lemma requestPowerSaving_timed_out:
  assumes "uCellPwrSetRequested3gppPowerSaving e = 0" and "uNetworkUp e = 0"
    and "\<not> g3gppPowerSavingSet (fst (requestPowerSaving e h s))"
  shows "blocks (fst (requestPowerSaving e h s)) = blocks s + 30"
    and "printed (calls (fst (requestPowerSaving e h s))) =
           printed (calls s) @ [Requesting ACTIVE_TIME_SECONDS PERIODIC_WAKEUP_SECONDS,
             BringingUp, UnableToSwitchOn, TakingDown]"
    and "snd (requestPowerSaving e h s) = 30"
  using assms
  by (simp_all add: requestPowerSaving_def Let_def bringUpAndWait_timed_out)

lemma requestPowerSaving_agreed_kept:
  assumes "Agreed \<in> set (printed (calls (fst (requestPowerSaving e h s))))"
    and "Agreed \<notin> set (printed (calls s))"
  shows "g3gppPowerSavingSet (fst (requestPowerSaving e h s))"
  using assms
  by (simp add: requestPowerSaving_def Let_def bringUpAndWait_agreed_kept split: if_splits)



subsection \<open>Lines 195-269\<close>

lemmas workflow_defs =
  workflow_def setPrimaryRat_def requestPowerSaving_def bringUpAndWait_def Let_def split_beta

lemma workflow_api:
  "api (calls (fst (workflow b e s))) =
     api (calls s) @
     [UPortInit, UNetworkInit, UNetworkAdd U_NETWORK_TYPE_CELL (gConfigCell b),
      UCellPwrSet3gppPowerSavingCallback (uNetworkAdd e), UCellCfgGetRat (uNetworkAdd e) 0] @
     (if uCellCfgGetRat e \<noteq> MY_RAT then [UCellCfgSetRatRank (uNetworkAdd e) MY_RAT 0] else []) @
     (if onMyRat e
      then UCellPwrSetRequested3gppPowerSaving (uNetworkAdd e) MY_RAT True
             ACTIVE_TIME_SECONDS PERIODIC_WAKEUP_SECONDS #
           (if uCellPwrSetRequested3gppPowerSaving e = 0
            then UCellPwrRebootIsRequired (uNetworkAdd e) #
                 (if uCellPwrRebootIsRequired e then [UCellPwrReboot (uNetworkAdd e)] else []) @
                 UNetworkUp (uNetworkAdd e) #
                 (if uNetworkUp e = 0
                  then replicate (blocks (fst (workflow b e s)) - blocks s) (UPortTaskBlock 1000) @
                       [UNetworkDown (uNetworkAdd e)]
                  else [])
            else [])
      else []) @
     [UNetworkDeinit, UPortDeinit]"
  by (simp add: workflow_def setPrimaryRat_def requestPowerSaving_def bringUpAndWait_def
        onMyRat_def Let_def split_beta waitLoop_api)

lemma workflow_consistent:
  "consistent s \<Longrightarrow> consistent (fst (workflow b e s))"
  by (simp add: workflow_defs consistent_plain consistent_invoke waitLoop_consistent)

lemma workflow_keeps:
  "g3gppPowerSavingSet s \<Longrightarrow> g3gppPowerSavingSet (fst (workflow b e s))"
  by (simp add: workflow_defs waitLoop_keeps)

lemma workflow_blocks_le:
  "blocks s \<le> blocks (fst (workflow b e s))"
  by (simp add: workflow_defs le_blocks_waitLoop)

lemma workflow_no_wait:
  "\<not> (onMyRat e \<and> uCellPwrSetRequested3gppPowerSaving e = 0 \<and> uNetworkUp e = 0) \<Longrightarrow>
     blocks (fst (workflow b e s)) = blocks s"
  by (auto simp add: workflow_defs onMyRat_def)

lemma workflow_at_most_30:
  "blocks (fst (workflow b e s)) \<le> blocks s + 30"
  by (simp add: workflow_defs blocks_waitLoop_le)

lemma workflow_timed_out:
  assumes "onMyRat e" "uCellPwrSetRequested3gppPowerSaving e = 0" "uNetworkUp e = 0"
    and "\<not> g3gppPowerSavingSet (fst (workflow b e s))"
  shows "blocks (fst (workflow b e s)) = blocks s + 30"
    and "printed (calls (fst (workflow b e s))) = printed (calls s) @
       [AddedNetwork (uNetworkAdd e), Requesting ACTIVE_TIME_SECONDS PERIODIC_WAKEUP_SECONDS,
        BringingUp, UnableToSwitchOn, TakingDown, Done]"
    and "snd (workflow b e s) = 30"
  using assms
  by (simp_all add: workflow_def Let_def split_beta requestPowerSaving_timed_out)

lemma workflow_agreed_kept:
  assumes "Agreed \<in> set (printed (calls (fst (workflow b e s))))"
    and "Agreed \<notin> set (printed (calls s))"
  shows "g3gppPowerSavingSet (fst (workflow b e s))"
  using assms
  by (simp add: workflow_def Let_def split_beta requestPowerSaving_agreed_kept split: if_splits)



subsection \<open>Lines 271-291\<close>

lemma switchOffAgain_simps [simp]:
  "calls (switchOffAgain b e s) = calls s @
     [UPortInit, UNetworkInit, UNetworkAdd U_NETWORK_TYPE_CELL (gConfigCell b),
      UCellPwrSetRequested3gppPowerSaving (uNetworkAdd e) MY_RAT False (- 1) (- 1),
      UCellPwrRebootIsRequired (uNetworkAdd e)] @
     (if uCellPwrRebootIsRequired e then [UCellPwrReboot (uNetworkAdd e)] else []) @
     [UNetworkDeinit, UPortDeinit]"
  "blocks (switchOffAgain b e s) = blocks s"
  "g3gppPowerSavingSet (switchOffAgain b e s) = g3gppPowerSavingSet s"
  by (simp_all add: switchOffAgain_def Let_def)

lemma example_simps:
  "g3gppPowerSavingSet (exampleCellPowerSaving3gpp b e e' s) = g3gppPowerSavingSet (fst (workflow b e s))"
  "blocks (exampleCellPowerSaving3gpp b e e' s) = blocks (fst (workflow b e s))"
  "printed (calls (exampleCellPowerSaving3gpp b e e' s)) = printed (calls (fst (workflow b e s)))"
  "deliveries (calls (exampleCellPowerSaving3gpp b e e' s)) = deliveries (calls (fst (workflow b e s)))"
  by (simp_all add: exampleCellPowerSaving3gpp_def split_beta Let_def)

lemma example_api:
  "api (calls (exampleCellPowerSaving3gpp b e e' s)) =
     api (calls (fst (workflow b e s))) @
     (if internalTest b
      then U_PORT_TEST_ASSERT (snd (workflow b e s) <s 0 \<or> g3gppPowerSavingSet (fst (workflow b e s))) #
           (if g3gppPowerSavingSet (fst (workflow b e s))
            then [UPortInit, UNetworkInit, UNetworkAdd U_NETWORK_TYPE_CELL (gConfigCell b),
                  UCellPwrSetRequested3gppPowerSaving (uNetworkAdd e') MY_RAT False (- 1) (- 1),
                  UCellPwrRebootIsRequired (uNetworkAdd e')] @
                 (if uCellPwrRebootIsRequired e' then [UCellPwrReboot (uNetworkAdd e')] else []) @
                 [UNetworkDeinit, UPortDeinit]
            else [])
      else [])"
  by (simp add: exampleCellPowerSaving3gpp_def internalTest_def split_beta Let_def)

lemma consistent_boot: "consistent boot"
  by (simp add: consistent_def boot_def)

lemma count_api: "api [c] = [c] \<Longrightarrow> count_list (api cs) c = count_list cs c"
  by (induction cs rule: api.induct) auto

lemma in_api: "api [c] = [c] \<Longrightarrow> c \<in> set (api cs) \<longleftrightarrow> c \<in> set cs"
  by (induction cs rule: api.induct) auto

lemma callback_delivery: "deliveries (calls (callback d s)) = deliveries (calls s) @ [d]"
  by (simp add: line_def)

subsection \<open>The examples\<close>

lemma silent_simps [simp]:
  "uNetworkAdd silent = 0" "uCellCfgGetRat silent = U_CELL_NET_RAT_CATM1"
  "uCellCfgSetRatRank silent = 0" "uCellPwrSetRequested3gppPowerSaving silent = 0"
  "uCellPwrRebootIsRequired silent = False" "uNetworkUp silent = 0"
  "during silent c k = []"
  by (simp_all add: silent_def)

lemma delivering_simps [simp]:
  "uNetworkAdd (delivering c k ds e) = uNetworkAdd e"
  "uCellCfgGetRat (delivering c k ds e) = uCellCfgGetRat e"
  "uCellCfgSetRatRank (delivering c k ds e) = uCellCfgSetRatRank e"
  "uCellPwrSetRequested3gppPowerSaving (delivering c k ds e) = uCellPwrSetRequested3gppPowerSaving e"
  "uCellPwrRebootIsRequired (delivering c k ds e) = uCellPwrRebootIsRequired e"
  "uNetworkUp (delivering c k ds e) = uNetworkUp e"
  "during (delivering c k ds e) c' k' = (if c' = c \<and> k' = k then ds else during e c' k')"
  by (simp_all add: delivering_def)

lemma deliveries_examples [simp]:
  "agrees asRequested" "agrees roundedUp" "\<not> agrees tooShort"
  by (simp_all add: agrees_def asRequested_def roundedUp_def tooShort_def
        ACTIVE_TIME_SECONDS_def PERIODIC_WAKEUP_SECONDS_def)

lemma builds [simp]:
  "internalTest internalTestBuild" "\<not> internalTest plainBuild"
  "gConfigCell internalTestBuild = U_NETWORK_TYPE_CELL" "gConfigCell plainBuild = U_NETWORK_TYPE_CELL"
  by (simp_all add: internalTest_def internalTestBuild_def plainBuild_def cellConfigured_def gConfigCell_def)

subsection \<open>Counting and ordering calls\<close>

lemma api_takeWhile:
  "api [b] = [b] \<Longrightarrow> api (takeWhile (\<lambda>c. c \<noteq> b) cs) = takeWhile (\<lambda>c. c \<noteq> b) (api cs)"
  by (induction cs rule: api.induct) auto

lemma before_api:
  assumes "api [a] = [a]" and "api [b] = [b]"
  shows "before a b cs = before a b (api cs)"
proof -
  have "a \<in> set (takeWhile (\<lambda>c. c \<noteq> b) cs) \<longleftrightarrow> a \<in> set (api (takeWhile (\<lambda>c. c \<noteq> b) cs))"
    using assms(1) by (simp add: in_api)
  then show ?thesis
    using assms(2) by (simp add: before_def api_takeWhile)
qed

lemma workflow_count:
  "api [c] = [c] \<Longrightarrow>
     count_list (calls (fst (workflow b e s))) c = count_list (api (calls (fst (workflow b e s)))) c"
  by (simp add: count_api)

lemma api_boot [simp]: "api (calls boot) = []" "printed (calls boot) = []" "blocks boot = 0"
  "\<not> g3gppPowerSavingSet boot"
  by (simp_all add: boot_def)

lemma again_simps [simp]:
  "calls (again s) = []" "blocks (again s) = 0"
  "g3gppPowerSavingSet (again s) = g3gppPowerSavingSet s"
  by (simp_all add: again_def boot_def)

lemma count_list_replicate_eq [simp]:
  "count_list (replicate n x) y = (if x = y then n else 0)"
  by (induction n) auto

lemma takeWhile_replicate_append:
  "P x \<Longrightarrow> takeWhile P (replicate n x @ ys) = replicate n x @ takeWhile P ys"
  by (induction n) simp_all

section \<open>The claims\<close>

text \<open>
  In what follows a \<^emph>\<open>session\<close> is one run of \<^verbatim>\<open>exampleCellPowerSaving3gpp\<close> from the
  state \<open>boot\<close>, for an arbitrary build \<open>b\<close>, an arbitrary library \<open>e\<close> during lines 195-269
  and an arbitrary library \<open>e'\<close> during the lines compiled for the internal tests.
\<close>

text \<open>
  Claim C1.  For every sequence of deliveries of the callback during a session, the flag
  \<^verbatim>\<open>g3gppPowerSavingSet\<close> is set at the end if and only if at least one delivery reported
  power saving on, an active time of at least 60 seconds and a periodic wake-up of at
  least 14400 seconds.  Every run of the callback logs its delivery, and a delivery that
  fails one of the three conditions leaves the flag as it was.
\<close>

theorem agreed_iff_agreeing_delivery:
  "g3gppPowerSavingSet (exampleCellPowerSaving3gpp b e e' boot) =
     list_ex agrees (deliveries (calls (exampleCellPowerSaving3gpp b e e' boot)))
   \<and> deliveries (calls (callback d s)) = deliveries (calls s) @ [d]
   \<and> agrees d = (onNotOff d \<and> 60 \<le>s activeTimeSeconds d \<and> 14400 \<le>s periodicWakeupSeconds d)
   \<and> (\<not> agrees d \<longrightarrow> g3gppPowerSavingSet (callback d s) = g3gppPowerSavingSet s)"
proof -
  have "consistent (fst (workflow b e boot))"
    using consistent_boot by (rule workflow_consistent)
  then have "g3gppPowerSavingSet (exampleCellPowerSaving3gpp b e e' boot) =
     list_ex agrees (deliveries (calls (exampleCellPowerSaving3gpp b e e' boot)))"
    by (simp add: example_simps consistent_def)
  moreover have "agrees d = (onNotOff d \<and> 60 \<le>s activeTimeSeconds d \<and> 14400 \<le>s periodicWakeupSeconds d)"
    by (simp add: agrees_def ACTIVE_TIME_SECONDS_def PERIODIC_WAKEUP_SECONDS_def)
  moreover have "deliveries (calls (callback d s)) = deliveries (calls s) @ [d]"
    by (rule callback_delivery)
  moreover have "\<not> agrees d \<longrightarrow> g3gppPowerSavingSet (callback d s) = g3gppPowerSavingSet s"
    by simp
  ultimately show ?thesis
    by blast
qed

theorem agreed_iff_agreeing_delivery_witness:
  "g3gppPowerSavingSet (exampleCellPowerSaving3gpp plainBuild
       (delivering (UNetworkUp 0) 0 [tooShort, roundedUp] silent) silent boot)
   \<and> list_ex agrees (deliveries (calls (exampleCellPowerSaving3gpp plainBuild
       (delivering (UNetworkUp 0) 0 [tooShort, roundedUp] silent) silent boot)))
   \<and> \<not> agrees tooShort
   \<and> g3gppPowerSavingSet (callback tooShort boot) = g3gppPowerSavingSet boot"
  using agreed_iff_agreeing_delivery [of plainBuild "delivering (UNetworkUp 0) 0 [tooShort, roundedUp] silent"
      silent tooShort boot]
  by code_simp




text \<open>
  Claim C3.  When the wait loop is entered (the RAT is right, the request returned 0, so
  \<open>x\<close> is 0, and the network came up) and the flag is never set, which is to say it is
  clear at the end, the session performs exactly 30 calls of \<^verbatim>\<open>uPortTaskBlock(1000)\<close>,
  \<open>x\<close> ends at 30, and the session prints that it was unable to switch power saving on.
\<close>

theorem wait_gives_up_after_30_cycles:
  assumes "onMyRat e" and "uCellPwrSetRequested3gppPowerSaving e = 0" and "uNetworkUp e = 0"
    and "\<not> g3gppPowerSavingSet (exampleCellPowerSaving3gpp b e e' boot)"
  shows "blocks (exampleCellPowerSaving3gpp b e e' boot) = 30
    \<and> count_list (calls (exampleCellPowerSaving3gpp b e e' boot)) (UPortTaskBlock 1000) = 30
    \<and> snd (workflow b e boot) = 30
    \<and> printed (calls (exampleCellPowerSaving3gpp b e e' boot)) =
        [AddedNetwork (uNetworkAdd e), Requesting 60 14400, BringingUp, UnableToSwitchOn,
         TakingDown, Done]"
proof -
  have clear: "\<not> g3gppPowerSavingSet (fst (workflow b e boot))"
    using assms(4) by (simp add: example_simps)
  note out = workflow_timed_out [OF assms(1-3) clear]
  have "count_list (api (calls (exampleCellPowerSaving3gpp b e e' boot))) (UPortTaskBlock 1000) = 30"
    using assms(1-3) clear out(1) by (simp add: example_api workflow_api)
  then have "count_list (calls (exampleCellPowerSaving3gpp b e e' boot)) (UPortTaskBlock 1000) = 30"
    by (simp add: count_api)
  with out show ?thesis
    by (simp add: example_simps ACTIVE_TIME_SECONDS_def PERIODIC_WAKEUP_SECONDS_def)
qed

text \<open>The library \<open>silent\<close> never runs the callback.\<close>

theorem wait_gives_up_after_30_cycles_witness:
  "onMyRat silent \<and> uCellPwrSetRequested3gppPowerSaving silent = 0 \<and> uNetworkUp silent = 0
   \<and> \<not> g3gppPowerSavingSet (exampleCellPowerSaving3gpp plainBuild silent silent boot)
   \<and> blocks (exampleCellPowerSaving3gpp plainBuild silent silent boot) = 30
   \<and> count_list (calls (exampleCellPowerSaving3gpp plainBuild silent silent boot)) (UPortTaskBlock 1000) = 30
   \<and> UnableToSwitchOn \<in> set (printed (calls (exampleCellPowerSaving3gpp plainBuild silent silent boot)))"
proof -
  have h: "onMyRat silent" "uCellPwrSetRequested3gppPowerSaving silent = 0" "uNetworkUp silent = 0"
    "\<not> g3gppPowerSavingSet (exampleCellPowerSaving3gpp plainBuild silent silent boot)"
    by code_simp+
  from wait_gives_up_after_30_cycles [OF h] h show ?thesis
    by simp
qed




text \<open>
  Claim C5, as amended.  When the RAT differs from \<^verbatim>\<open>MY_RAT\<close> and the rank change is
  refused, lines 195-269 go from the rank change straight to the teardown and never call
  \<^verbatim>\<open>uCellPwrSetRequested3gppPowerSaving\<close>.  The only call of that function in such an
  execution is the one of line 282, with \<^verbatim>\<open>(false, -1, -1)\<close>, made after the teardown by the
  lines for the internal tests when the flag is set.  The theorem gives the complete list
  of calls.
\<close>

theorem rat_failure_goes_straight_to_teardown:
  assumes "uCellCfgGetRat e \<noteq> MY_RAT" and "uCellCfgSetRatRank e \<noteq> 0"
  shows "api (calls (exampleCellPowerSaving3gpp b e e' boot)) =
      [UPortInit, UNetworkInit, UNetworkAdd U_NETWORK_TYPE_CELL (gConfigCell b),
       UCellPwrSet3gppPowerSavingCallback (uNetworkAdd e), UCellCfgGetRat (uNetworkAdd e) 0,
       UCellCfgSetRatRank (uNetworkAdd e) MY_RAT 0, UNetworkDeinit, UPortDeinit] @
      (if internalTest b
       then U_PORT_TEST_ASSERT True #
            (if g3gppPowerSavingSet (exampleCellPowerSaving3gpp b e e' boot)
             then [UPortInit, UNetworkInit, UNetworkAdd U_NETWORK_TYPE_CELL (gConfigCell b),
                   UCellPwrSetRequested3gppPowerSaving (uNetworkAdd e') MY_RAT False (- 1) (- 1),
                   UCellPwrRebootIsRequired (uNetworkAdd e')] @
                  (if uCellPwrRebootIsRequired e' then [UCellPwrReboot (uNetworkAdd e')] else []) @
                  [UNetworkDeinit, UPortDeinit]
             else [])
       else [])
    \<and> printed (calls (exampleCellPowerSaving3gpp b e e' boot)) =
        [AddedNetwork (uNetworkAdd e), UnableToSetRat MY_RAT, Done]"
proof -
  have no: "\<not> onMyRat e"
    using assms by (simp add: onMyRat_def)
  then have x: "snd (workflow b e boot) = - 1"
    by (simp add: workflow_def Let_def split_beta)
  have p: "printed (calls (fst (workflow b e boot))) =
      [AddedNetwork (uNetworkAdd e), UnableToSetRat MY_RAT, Done]"
    using no by (simp add: workflow_def Let_def split_beta)
  have lt: "(- 1 :: int32_t) <s 0"
    by (simp add: word_sless_alt)
  show ?thesis
    using assms no x p lt by (simp add: example_api example_simps workflow_api)
qed

text \<open>A library on NB1 that refuses the rank change.\<close>

theorem rat_failure_goes_straight_to_teardown_witness:
  "api (calls (exampleCellPowerSaving3gpp plainBuild
      (silent\<lparr>uCellCfgGetRat := U_CELL_NET_RAT_NB1, uCellCfgSetRatRank := - 1\<rparr>) silent boot)) =
      [UPortInit, UNetworkInit, UNetworkAdd U_NETWORK_TYPE_CELL U_NETWORK_TYPE_CELL,
       UCellPwrSet3gppPowerSavingCallback 0, UCellCfgGetRat 0 0,
       UCellCfgSetRatRank 0 U_CELL_NET_RAT_CATM1 0, UNetworkDeinit, UPortDeinit]"
proof -
  let ?e = "silent\<lparr>uCellCfgGetRat := U_CELL_NET_RAT_NB1, uCellCfgSetRatRank := - 1\<rparr>"
  have h: "uCellCfgGetRat ?e \<noteq> MY_RAT" "uCellCfgSetRatRank ?e \<noteq> 0"
    by (simp_all add: MY_RAT_def silent_def)
  from rat_failure_goes_straight_to_teardown [OF h, of plainBuild silent] show ?thesis
    by (simp add: MY_RAT_def silent_def)
qed

text \<open>
  Claim C5 as stated fails: in the internal-test build, with an agreeing delivery during
  the refused rank change, \<^verbatim>\<open>uCellPwrSetRequested3gppPowerSaving\<close> is called.
\<close>

theorem request_function_called_after_rat_failure:
  "uCellCfgGetRat (delivering (UCellCfgSetRatRank 0 MY_RAT 0) 0 [asRequested]
       (silent\<lparr>uCellCfgGetRat := U_CELL_NET_RAT_NB1, uCellCfgSetRatRank := - 1\<rparr>)) \<noteq> MY_RAT
   \<and> uCellCfgSetRatRank (delivering (UCellCfgSetRatRank 0 MY_RAT 0) 0 [asRequested]
       (silent\<lparr>uCellCfgGetRat := U_CELL_NET_RAT_NB1, uCellCfgSetRatRank := - 1\<rparr>)) \<noteq> 0
   \<and> UCellPwrSetRequested3gppPowerSaving 0 MY_RAT False (- 1) (- 1) \<in> set (calls
       (exampleCellPowerSaving3gpp internalTestBuild
         (delivering (UCellCfgSetRatRank 0 MY_RAT 0) 0 [asRequested]
           (silent\<lparr>uCellCfgGetRat := U_CELL_NET_RAT_NB1, uCellCfgSetRatRank := - 1\<rparr>))
         silent boot))"
  by code_simp




text \<open>
  Claim C7.  When \<^verbatim>\<open>uNetworkUp\<close> returns nonzero, no suspend cycle occurs in the whole
  function, and lines 195-269 still call \<^verbatim>\<open>uNetworkDeinit\<close> and \<^verbatim>\<open>uPortDeinit\<close> once
  each; when the bring-up was reached, the teardown follows it at once and the session
  prints that it was unable to bring up the network.
\<close>

theorem no_wait_when_bring_up_fails:
  assumes "uNetworkUp e \<noteq> 0"
  shows "blocks (exampleCellPowerSaving3gpp b e e' boot) = 0
    \<and> (\<forall>ms. UPortTaskBlock ms \<notin> set (calls (exampleCellPowerSaving3gpp b e e' boot)))
    \<and> count_list (calls (fst (workflow b e boot))) UNetworkDeinit = 1
    \<and> count_list (calls (fst (workflow b e boot))) UPortDeinit = 1
    \<and> (onMyRat e \<and> uCellPwrSetRequested3gppPowerSaving e = 0 \<longrightarrow>
         api (calls (fst (workflow b e boot))) =
           [UPortInit, UNetworkInit, UNetworkAdd U_NETWORK_TYPE_CELL (gConfigCell b),
            UCellPwrSet3gppPowerSavingCallback (uNetworkAdd e), UCellCfgGetRat (uNetworkAdd e) 0] @
           (if uCellCfgGetRat e \<noteq> MY_RAT then [UCellCfgSetRatRank (uNetworkAdd e) MY_RAT 0] else []) @
           [UCellPwrSetRequested3gppPowerSaving (uNetworkAdd e) MY_RAT True 60 14400,
            UCellPwrRebootIsRequired (uNetworkAdd e)] @
           (if uCellPwrRebootIsRequired e then [UCellPwrReboot (uNetworkAdd e)] else []) @
           [UNetworkUp (uNetworkAdd e), UNetworkDeinit, UPortDeinit]
         \<and> printed (calls (exampleCellPowerSaving3gpp b e e' boot)) =
           [AddedNetwork (uNetworkAdd e), Requesting 60 14400, BringingUp, UnableToBringUp, Done])"
proof -
  let ?W = "fst (workflow b e boot)"
  let ?F = "exampleCellPowerSaving3gpp b e e' boot"
  have bl: "blocks ?W = 0"
    using assms workflow_no_wait [of e b boot] by simp
  then have "\<And>ms. UPortTaskBlock ms \<notin> set (api (calls ?F))"
    using assms by (simp add: example_api workflow_api)
  then have nb: "\<And>ms. UPortTaskBlock ms \<notin> set (calls ?F)"
    by (simp add: in_api)
  have td: "count_list (calls ?W) UNetworkDeinit = 1" "count_list (calls ?W) UPortDeinit = 1"
    by (simp_all add: workflow_count workflow_api)
  have p: "onMyRat e \<and> uCellPwrSetRequested3gppPowerSaving e = 0 \<longrightarrow>
      printed (calls ?W) =
        [AddedNetwork (uNetworkAdd e), Requesting 60 14400, BringingUp, UnableToBringUp, Done]"
    using assms
    by (simp add: workflow_def requestPowerSaving_def bringUpAndWait_def Let_def split_beta
          ACTIVE_TIME_SECONDS_def PERIODIC_WAKEUP_SECONDS_def)
  show ?thesis
    using assms bl nb td p
    by (simp add: example_simps workflow_api ACTIVE_TIME_SECONDS_def PERIODIC_WAKEUP_SECONDS_def)
qed

text \<open>A library whose \<^verbatim>\<open>uNetworkUp\<close> returns \<open>-1\<close>.\<close>

theorem no_wait_when_bring_up_fails_witness:
  "uNetworkUp (silent\<lparr>uNetworkUp := - 1\<rparr>) \<noteq> 0
   \<and> blocks (exampleCellPowerSaving3gpp plainBuild (silent\<lparr>uNetworkUp := - 1\<rparr>) silent boot) = 0
   \<and> UPortTaskBlock 1000 \<notin> set (calls (exampleCellPowerSaving3gpp plainBuild
        (silent\<lparr>uNetworkUp := - 1\<rparr>) silent boot))
   \<and> printed (calls (exampleCellPowerSaving3gpp plainBuild (silent\<lparr>uNetworkUp := - 1\<rparr>) silent boot)) =
        [AddedNetwork 0, Requesting 60 14400, BringingUp, UnableToBringUp, Done]"
proof -
  have h: "uNetworkUp (silent\<lparr>uNetworkUp := - 1\<rparr>) \<noteq> 0"
    by (simp add: silent_def)
  have o: "onMyRat (silent\<lparr>uNetworkUp := - 1\<rparr>)"
     "uCellPwrSetRequested3gppPowerSaving (silent\<lparr>uNetworkUp := - 1\<rparr>) = 0"
     "uNetworkAdd (silent\<lparr>uNetworkUp := - 1\<rparr>) = 0"
    by (simp_all add: silent_def onMyRat_def MY_RAT_def)
  from no_wait_when_bring_up_fails [OF h, of plainBuild silent] h o show ?thesis
    by simp
qed

text \<open>
  Claim C8.  The first call after the registration of the callback is the query of the
  RAT at rank 0, made once.  \<^verbatim>\<open>uCellCfgSetRatRank\<close> is called, once, with \<^verbatim>\<open>MY_RAT\<close> and
  rank 0 and right after the query, if and only if the queried RAT differs from
  \<^verbatim>\<open>MY_RAT\<close>; when the RAT is already \<^verbatim>\<open>MY_RAT\<close> no rank change is made and the next call
  is the power-saving request.
\<close>

theorem rank_change_iff_rat_differs:
  "take 5 (api (calls (exampleCellPowerSaving3gpp b e e' boot))) =
      [UPortInit, UNetworkInit, UNetworkAdd U_NETWORK_TYPE_CELL (gConfigCell b),
       UCellPwrSet3gppPowerSavingCallback (uNetworkAdd e), UCellCfgGetRat (uNetworkAdd e) 0]
   \<and> (\<forall>h k. count_list (calls (exampleCellPowerSaving3gpp b e e' boot)) (UCellCfgGetRat h k) =
         (if h = uNetworkAdd e \<and> k = 0 then 1 else 0))
   \<and> (\<forall>h r k. count_list (calls (exampleCellPowerSaving3gpp b e e' boot)) (UCellCfgSetRatRank h r k) =
         (if uCellCfgGetRat e \<noteq> MY_RAT \<and> h = uNetworkAdd e \<and> r = MY_RAT \<and> k = 0 then 1 else 0))
   \<and> api (calls (exampleCellPowerSaving3gpp b e e' boot)) ! 5 =
         (if uCellCfgGetRat e \<noteq> MY_RAT then UCellCfgSetRatRank (uNetworkAdd e) MY_RAT 0
          else UCellPwrSetRequested3gppPowerSaving (uNetworkAdd e) MY_RAT True 60 14400)"
proof -
  let ?F = "exampleCellPowerSaving3gpp b e e' boot"
  have a: "take 5 (api (calls ?F)) =
      [UPortInit, UNetworkInit, UNetworkAdd U_NETWORK_TYPE_CELL (gConfigCell b),
       UCellPwrSet3gppPowerSavingCallback (uNetworkAdd e), UCellCfgGetRat (uNetworkAdd e) 0]"
    by (simp add: example_api workflow_api)
  have g: "\<And>h k. count_list (api (calls ?F)) (UCellCfgGetRat h k) =
         (if h = uNetworkAdd e \<and> k = 0 then 1 else 0)"
    by (simp add: example_api workflow_api)
  have r: "\<And>h r k. count_list (api (calls ?F)) (UCellCfgSetRatRank h r k) =
         (if uCellCfgGetRat e \<noteq> MY_RAT \<and> h = uNetworkAdd e \<and> r = MY_RAT \<and> k = 0 then 1 else 0)"
    by (simp add: example_api workflow_api)
  have n: "api (calls ?F) ! 5 =
         (if uCellCfgGetRat e \<noteq> MY_RAT then UCellCfgSetRatRank (uNetworkAdd e) MY_RAT 0
          else UCellPwrSetRequested3gppPowerSaving (uNetworkAdd e) MY_RAT True 60 14400)"
    by (simp add: example_api workflow_api onMyRat_def nth_append
          ACTIVE_TIME_SECONDS_def PERIODIC_WAKEUP_SECONDS_def)
  show ?thesis
    using a g r n by (simp add: count_api)
qed

text \<open>A library already on Cat-M1, and one on NB1.\<close>

theorem rank_change_iff_rat_differs_witness:
  "count_list (calls (exampleCellPowerSaving3gpp plainBuild silent silent boot))
      (UCellCfgSetRatRank 0 MY_RAT 0) = 0
   \<and> count_list (calls (exampleCellPowerSaving3gpp plainBuild
        (silent\<lparr>uCellCfgGetRat := U_CELL_NET_RAT_NB1\<rparr>) silent boot))
      (UCellCfgSetRatRank 0 MY_RAT 0) = 1
   \<and> api (calls (exampleCellPowerSaving3gpp plainBuild
        (silent\<lparr>uCellCfgGetRat := U_CELL_NET_RAT_NB1\<rparr>) silent boot)) ! 5 =
      UCellCfgSetRatRank 0 MY_RAT 0"
proof -
  let ?e = "silent\<lparr>uCellCfgGetRat := U_CELL_NET_RAT_NB1\<rparr>"
  have e: "uCellCfgGetRat ?e \<noteq> MY_RAT" "uNetworkAdd ?e = 0" "uCellCfgGetRat silent = MY_RAT"
    by (simp_all add: silent_def MY_RAT_def)
  note t = rank_change_iff_rat_differs [of plainBuild silent silent]
  note u = rank_change_iff_rat_differs [of plainBuild ?e silent]
  from t have "\<forall>h r k. count_list (calls (exampleCellPowerSaving3gpp plainBuild silent silent boot))
         (UCellCfgSetRatRank h r k) =
         (if uCellCfgGetRat silent \<noteq> MY_RAT \<and> h = uNetworkAdd silent \<and> r = MY_RAT \<and> k = 0 then 1 else 0)"
    by blast
  then have a: "count_list (calls (exampleCellPowerSaving3gpp plainBuild silent silent boot))
      (UCellCfgSetRatRank 0 MY_RAT 0) = 0"
    using e by simp
  from u have "\<forall>h r k. count_list (calls (exampleCellPowerSaving3gpp plainBuild ?e silent boot))
         (UCellCfgSetRatRank h r k) =
         (if uCellCfgGetRat ?e \<noteq> MY_RAT \<and> h = uNetworkAdd ?e \<and> r = MY_RAT \<and> k = 0 then 1 else 0)"
    by blast
  then have b: "count_list (calls (exampleCellPowerSaving3gpp plainBuild ?e silent boot))
      (UCellCfgSetRatRank 0 MY_RAT 0) = 1"
    using e by simp
  from u e have c: "api (calls (exampleCellPowerSaving3gpp plainBuild ?e silent boot)) ! 5 =
      UCellCfgSetRatRank 0 MY_RAT 0"
    by simp
  from a b c show ?thesis
    by simp
qed

text \<open>
  Claim C9.  The flag is monotone within a session.  It starts clear; the callback sets it
  when the delivery agrees and otherwise leaves it as it is, so a later delivery with
  other values does not clear it; a call changes it only through the deliveries made
  during it; the loop, lines 195-269, lines 278-288 and the whole function keep a flag
  that is set.  Hence a session that has printed that the settings are agreed ends with
  the flag set.
\<close>

theorem flag_is_only_ever_set:
  "\<not> g3gppPowerSavingSet boot
   \<and> g3gppPowerSavingSet (callback d s) = (g3gppPowerSavingSet s \<or> agrees d)
   \<and> g3gppPowerSavingSet (plain c s) = g3gppPowerSavingSet s
   \<and> g3gppPowerSavingSet (invoke e c s) =
       (g3gppPowerSavingSet s \<or> list_ex agrees (during e c (blocks s)))
   \<and> g3gppPowerSavingSet (uPortTaskBlock e ms s) =
       (g3gppPowerSavingSet s \<or> list_ex agrees (during e (UPortTaskBlock ms) (blocks s)))
   \<and> g3gppPowerSavingSet (switchOffAgain b e' s) = g3gppPowerSavingSet s
   \<and> (g3gppPowerSavingSet s \<longrightarrow> g3gppPowerSavingSet (fst (waitLoop e s x)))
   \<and> (g3gppPowerSavingSet s \<longrightarrow> g3gppPowerSavingSet (fst (workflow b e s)))
   \<and> (g3gppPowerSavingSet s \<longrightarrow> g3gppPowerSavingSet (exampleCellPowerSaving3gpp b e e' s))
   \<and> (UPortLog Agreed \<in> set (calls (exampleCellPowerSaving3gpp b e e' boot)) \<longrightarrow>
        g3gppPowerSavingSet (exampleCellPowerSaving3gpp b e e' boot))"
proof -
  have "Agreed \<in> set (printed (calls (fst (workflow b e boot)))) \<longrightarrow>
      g3gppPowerSavingSet (fst (workflow b e boot))"
    using workflow_agreed_kept [of b e boot] by simp
  then show ?thesis
    by (simp add: example_simps waitLoop_keeps workflow_keeps)
qed

text \<open>
  An agreeing delivery followed by one that is too short, on the callback alone and in a
  session where the second arrives while the network is taken down.
\<close>

theorem flag_is_only_ever_set_witness:
  "g3gppPowerSavingSet (callback tooShort (callback asRequested boot))
   \<and> g3gppPowerSavingSet (fst (waitLoop silent (callback asRequested boot) 0))
   \<and> UPortLog Agreed \<in> set (calls (exampleCellPowerSaving3gpp internalTestBuild
        (delivering (UNetworkDown 0) 2 [tooShort]
          (delivering (UPortTaskBlock 1000) 1 [asRequested] silent)) silent boot))
   \<and> g3gppPowerSavingSet (exampleCellPowerSaving3gpp internalTestBuild
        (delivering (UNetworkDown 0) 2 [tooShort]
          (delivering (UPortTaskBlock 1000) 1 [asRequested] silent)) silent boot)"
  using flag_is_only_ever_set [where d = tooShort and s = "callback asRequested boot"
      and c = UPortInit and e = silent and ms = 1000 and b = internalTestBuild and e' = silent and x = 0]
    flag_is_only_ever_set [where d = tooShort and s = boot
      and c = UPortInit and ms = 1000 and b = internalTestBuild and e' = silent and x = 0
      and e = "delivering (UNetworkDown 0) 2 [tooShort]
          (delivering (UPortTaskBlock 1000) 1 [asRequested] silent)"]
  by code_simp

text \<open>
  Claim C10.  \<^verbatim>\<open>uNetworkUp\<close> is called, once, exactly when the request was made and returned
  0.  \<^verbatim>\<open>uNetworkDown\<close> is called, once, exactly when moreover \<^verbatim>\<open>uNetworkUp\<close> returned 0,
  after the bring-up and before the first \<^verbatim>\<open>uNetworkDeinit\<close>; when the bring-up fails or
  is not reached the network is never taken down.
\<close>

theorem network_down_iff_up_succeeded:
  "(\<forall>h. count_list (calls (exampleCellPowerSaving3gpp b e e' boot)) (UNetworkUp h) =
        (if h = uNetworkAdd e \<and> onMyRat e \<and> uCellPwrSetRequested3gppPowerSaving e = 0 then 1 else 0))
   \<and> (\<forall>h. count_list (calls (exampleCellPowerSaving3gpp b e e' boot)) (UNetworkDown h) =
        (if h = uNetworkAdd e \<and> onMyRat e \<and> uCellPwrSetRequested3gppPowerSaving e = 0
            \<and> uNetworkUp e = 0 then 1 else 0))
   \<and> (onMyRat e \<and> uCellPwrSetRequested3gppPowerSaving e = 0 \<and> uNetworkUp e = 0 \<longrightarrow>
        before (UNetworkUp (uNetworkAdd e)) (UNetworkDown (uNetworkAdd e))
          (calls (exampleCellPowerSaving3gpp b e e' boot))
        \<and> before (UNetworkDown (uNetworkAdd e)) UNetworkDeinit
          (calls (exampleCellPowerSaving3gpp b e e' boot)))"
proof -
  let ?F = "exampleCellPowerSaving3gpp b e e' boot"
  have u: "\<And>h. count_list (api (calls ?F)) (UNetworkUp h) =
        (if h = uNetworkAdd e \<and> onMyRat e \<and> uCellPwrSetRequested3gppPowerSaving e = 0 then 1 else 0)"
    by (simp add: example_api workflow_api)
  have d: "\<And>h. count_list (api (calls ?F)) (UNetworkDown h) =
        (if h = uNetworkAdd e \<and> onMyRat e \<and> uCellPwrSetRequested3gppPowerSaving e = 0
            \<and> uNetworkUp e = 0 then 1 else 0)"
    by (simp add: example_api workflow_api)
  have o: "onMyRat e \<and> uCellPwrSetRequested3gppPowerSaving e = 0 \<and> uNetworkUp e = 0 \<longrightarrow>
        before (UNetworkUp (uNetworkAdd e)) (UNetworkDown (uNetworkAdd e)) (api (calls ?F))
        \<and> before (UNetworkDown (uNetworkAdd e)) UNetworkDeinit (api (calls ?F))"
    by (simp add: example_api workflow_api before_def takeWhile_replicate_append)
  show ?thesis
    using u d o by (simp add: count_api before_api [symmetric])
qed

text \<open>A library on which the network comes up, and one on which it does not.\<close>

theorem network_down_iff_up_succeeded_witness:
  "count_list (calls (exampleCellPowerSaving3gpp plainBuild silent silent boot)) (UNetworkDown 0) = 1
   \<and> before (UNetworkDown 0) UNetworkDeinit
        (calls (exampleCellPowerSaving3gpp plainBuild silent silent boot))
   \<and> count_list (calls (exampleCellPowerSaving3gpp plainBuild (silent\<lparr>uNetworkUp := - 1\<rparr>) silent boot))
        (UNetworkDown 0) = 0"
proof -
  let ?f = "silent\<lparr>uNetworkUp := - 1\<rparr>"
  have e: "onMyRat silent" "uCellPwrSetRequested3gppPowerSaving silent = 0" "uNetworkUp silent = 0"
    "uNetworkAdd silent = 0"
    by (simp_all add: onMyRat_def MY_RAT_def)
  have f: "uNetworkUp ?f \<noteq> 0"
    by (simp add: silent_def)
  note t = network_down_iff_up_succeeded [of plainBuild silent silent]
  note u = network_down_iff_up_succeeded [of plainBuild ?f silent]
  from t have "\<forall>h. count_list (calls (exampleCellPowerSaving3gpp plainBuild silent silent boot))
        (UNetworkDown h) =
        (if h = uNetworkAdd silent \<and> onMyRat silent \<and> uCellPwrSetRequested3gppPowerSaving silent = 0
            \<and> uNetworkUp silent = 0 then 1 else 0)"
    by blast
  then have a: "count_list (calls (exampleCellPowerSaving3gpp plainBuild silent silent boot))
        (UNetworkDown 0) = 1"
    using e by simp
  from t e have b: "before (UNetworkDown 0) UNetworkDeinit
        (calls (exampleCellPowerSaving3gpp plainBuild silent silent boot))"
    by simp
  from u have "\<forall>h. count_list (calls (exampleCellPowerSaving3gpp plainBuild ?f silent boot))
        (UNetworkDown h) =
        (if h = uNetworkAdd ?f \<and> onMyRat ?f \<and> uCellPwrSetRequested3gppPowerSaving ?f = 0
            \<and> uNetworkUp ?f = 0 then 1 else 0)"
    by blast
  then have c: "count_list (calls (exampleCellPowerSaving3gpp plainBuild ?f silent boot))
        (UNetworkDown 0) = 0"
    using f by simp
  from a b c show ?thesis
    by simp
qed

end
